theory Spec2Isabelle
  imports Complex_Main
begin

section \<open>JavaScript values\<close>

text \<open>
  The gateway is an Express application (three revisions of \<open>index.ts\<close>).  Every route is
  an arrow function that reads fields of \<open>req.body\<close>, may call the OpenAI client once and
  answers with \<open>res.status(..).json(..)\<close>.  The values that flow through it are untyped
  JavaScript values, so they are modelled by a datatype.

  A JavaScript number is modelled as a real number or one of the three special values
  \<open>NaN\<close>, \<open>Infinity\<close>, \<open>-Infinity\<close>.  Arithmetic on finite numbers is exact: rounding,
  overflow and the sign of zero of IEEE 754 doubles are not represented.  The special values
  arise exactly where the handlers can produce them: a product with \<open>undefined\<close> and a
  division by zero.
\<close>

datatype jsnum = Fin real | NaN | PosInf | NegInf

datatype jsval =
    JUndefined
  | JNull
  | JBool bool
  | JNum jsnum
  | JStr string
  | JArr "jsval list"
  | JObj "(string \<times> jsval) list"

text \<open>\<open>!v\<close> is \<open>\<not> truthy v\<close>: the falsy values are \<open>undefined\<close>, \<open>null\<close>, \<open>false\<close>,
  \<open>0\<close>, \<open>NaN\<close> and the empty string.\<close>

fun truthy :: "jsval \<Rightarrow> bool" where
  "truthy JUndefined = False"
| "truthy JNull = False"
| "truthy (JBool b) = b"
| "truthy (JNum (Fin r)) = (r \<noteq> 0)"
| "truthy (JNum NaN) = False"
| "truthy (JNum PosInf) = True"
| "truthy (JNum NegInf) = True"
| "truthy (JStr s) = (s \<noteq> [])"
| "truthy (JArr xs) = True"
| "truthy (JObj fs) = True"

text \<open>The operators \<open>+\<close>, \<open>*\<close>, \<open>/\<close> and \<open>Math.sqrt\<close> on numbers.  A zero divisor is the
  positive zero: the only divisor of the program is a product of two square roots.\<close>

fun js_add :: "jsnum \<Rightarrow> jsnum \<Rightarrow> jsnum" where
  "js_add (Fin a) (Fin b) = Fin (a + b)"
| "js_add NaN y = NaN"
| "js_add x NaN = NaN"
| "js_add PosInf NegInf = NaN"
| "js_add NegInf PosInf = NaN"
| "js_add PosInf y = PosInf"
| "js_add x PosInf = PosInf"
| "js_add NegInf y = NegInf"
| "js_add x NegInf = NegInf"

fun js_scale :: "jsnum \<Rightarrow> real \<Rightarrow> jsnum" where
  "js_scale (Fin a) b = Fin (a * b)"
| "js_scale NaN b = NaN"
| "js_scale PosInf b = (if b = 0 then NaN else if 0 < b then PosInf else NegInf)"
| "js_scale NegInf b = (if b = 0 then NaN else if 0 < b then NegInf else PosInf)"

fun js_mul :: "jsnum \<Rightarrow> jsnum \<Rightarrow> jsnum" where
  "js_mul x (Fin b) = js_scale x b"
| "js_mul (Fin a) y = js_scale y a"
| "js_mul NaN y = NaN"
| "js_mul x NaN = NaN"
| "js_mul PosInf PosInf = PosInf"
| "js_mul PosInf NegInf = NegInf"
| "js_mul NegInf PosInf = NegInf"
| "js_mul NegInf NegInf = PosInf"

fun js_div :: "jsnum \<Rightarrow> jsnum \<Rightarrow> jsnum" where
  "js_div (Fin a) (Fin b) =
     (if b = 0 then (if a = 0 then NaN else if 0 < a then PosInf else NegInf)
      else Fin (a / b))"
| "js_div NaN y = NaN"
| "js_div x NaN = NaN"
| "js_div (Fin a) y = Fin 0"
| "js_div PosInf (Fin b) = (if 0 \<le> b then PosInf else NegInf)"
| "js_div NegInf (Fin b) = (if 0 \<le> b then NegInf else PosInf)"
| "js_div PosInf PosInf = NaN"
| "js_div PosInf NegInf = NaN"
| "js_div NegInf PosInf = NaN"
| "js_div NegInf NegInf = NaN"

fun js_sqrt :: "jsnum \<Rightarrow> jsnum" where
  "js_sqrt (Fin a) = (if a < 0 then NaN else Fin (sqrt a))"
| "js_sqrt NaN = NaN"
| "js_sqrt PosInf = PosInf"
| "js_sqrt NegInf = NaN"

text \<open>\<open>xs[i]\<close> on an array: \<open>undefined\<close> out of range.  For an array of numbers used as a
  factor, \<open>undefined\<close> converts to \<open>NaN\<close>.\<close>

definition js_index :: "jsval list \<Rightarrow> nat \<Rightarrow> jsval" where
  "js_index xs i = (if i < length xs then xs ! i else JUndefined)"

definition num_index :: "real list \<Rightarrow> nat \<Rightarrow> jsnum" where
  "num_index xs i = (if i < length xs then Fin (xs ! i) else NaN)"

section \<open>Requests, the provider client and responses\<close>

text \<open>\<open>req.body\<close> is the object that \<open>express.json()\<close> parsed: a finite map from field names
  to values.  Reading a field that is absent yields \<open>undefined\<close>; a destructuring default
  replaces \<open>undefined\<close> only.\<close>

type_synonym req_body = "string \<rightharpoonup> jsval"

definition field :: "req_body \<Rightarrow> string \<Rightarrow> jsval" where
  "field b k = (case b k of None \<Rightarrow> JUndefined | Some v \<Rightarrow> v)"

definition with_default :: "jsval \<Rightarrow> jsval \<Rightarrow> jsval" where
  "with_default v d = (if v = JUndefined then d else v)"

text \<open>What a \<open>catch (error)\<close> clause can receive: an instance of \<open>Error\<close> with its
  \<open>message\<close>, or any other thrown value.\<close>

datatype thrown = ErrorInstance string | NonError jsval

text \<open>The calls of the OpenAI client, with the arguments the handlers pass.\<close>

datatype provider_call =
    ChatCompletionsCreate jsval jsval nat
  | CompletionsCreate jsval jsval jsval real
  | ModelsList
  | EmbeddingsCreate jsval jsval "jsval option"

text \<open>The results of the client, as the SDK's type declarations give them (the declarations
  are not part of the repository; only the fields the handlers read are kept).  \<open>usage\<close> is
  passed through unread.\<close>

record chat_completion =
  chat_choices :: "string option list"
  chat_usage :: jsval
  chat_model :: string

record text_completion =
  text_choices :: "string list"
  text_usage :: jsval
  text_model :: string

record model_info =
  model_id :: string
  model_created :: int
  model_owned_by :: string

record embedding_item =
  item_embedding :: "real list"
  item_index :: nat

record embedding_response =
  emb_data :: "embedding_item list"
  emb_usage :: jsval
  emb_model :: string

record provider =
  chat_completions_create :: "jsval \<Rightarrow> jsval \<Rightarrow> nat \<Rightarrow> thrown + chat_completion"
  completions_create :: "jsval \<Rightarrow> jsval \<Rightarrow> jsval \<Rightarrow> real \<Rightarrow> thrown + text_completion"
  models_list :: "thrown + model_info list"
  embeddings_create :: "jsval \<Rightarrow> jsval \<Rightarrow> jsval option \<Rightarrow> thrown + embedding_response"

text \<open>The bodies passed to \<open>res.json\<close>, one constructor per shape.\<close>

record batch_entry =
  entry_index :: nat
  entry_text :: jsval
  entry_embedding :: "real list"
  entry_dimensions :: nat

record similarity_result =
  sim_text1 :: jsval
  sim_text2 :: jsval
  cosine_similarity :: jsnum
  similarity_percentage :: string
  sim_embedding1 :: "real list"
  sim_dimensions1 :: nat
  sim_embedding2 :: "real list"
  sim_dimensions2 :: nat
  sim_usage :: jsval
  sim_model :: string

datatype response_body =
    ErrorBody string
  | ErrorDetailsBody string string
  | CompletionBody string jsval string
  | ModelsBody "model_info list"
  | EmbeddingBody embedding_response
  | BatchBody "batch_entry list" jsval string nat
  | SimilarityBody similarity_result

record http_response =
  status :: nat
  body :: response_body

text \<open>A handler returns its response together with the provider calls it made, in order.\<close>

type_synonym outcome = "http_response \<times> provider_call list"

definition bad_request :: "string \<Rightarrow> outcome" where
  "bad_request msg = (\<lparr>status = 400, body = ErrorBody msg\<rparr>, [])"

text \<open>The \<open>catch\<close> block shared by all routes:
  \<open>details: error instanceof Error ? error.message : 'Unknown error'\<close>.\<close>

definition error_details :: "thrown \<Rightarrow> string" where
  "error_details e = (case e of ErrorInstance m \<Rightarrow> m | NonError v \<Rightarrow> ''Unknown error'')"

definition server_error :: "string \<Rightarrow> thrown \<Rightarrow> http_response" where
  "server_error msg e = \<lparr>status = 500, body = ErrorDetailsBody msg (error_details e)\<rparr>"

definition ok :: "response_body \<Rightarrow> http_response" where
  "ok b = \<lparr>status = 200, body = b\<rparr>"

section \<open>The similarity calculator\<close>

text \<open>The inline computation of the similarity route:
  \<^verbatim>\<open>
  const dotProduct = embedding1.reduce((sum, a, i) => sum + a * embedding2[i], 0);
  const magnitude1 = Math.sqrt(embedding1.reduce((sum, a) => sum + a * a, 0));
  const magnitude2 = Math.sqrt(embedding2.reduce((sum, a) => sum + a * a, 0));
  const cosineSimilarity = dotProduct / (magnitude1 * magnitude2);
  \<close>
  \<open>reduce\<close> with a start value is a left fold; the index runs over the first array.\<close>

definition dotProduct :: "real list \<Rightarrow> real list \<Rightarrow> jsnum" where
  "dotProduct embedding1 embedding2 =
     foldl (\<lambda>sum (i, a). js_add sum (js_mul (Fin a) (num_index embedding2 i)))
       (Fin 0) (enumerate 0 embedding1)"

definition magnitude :: "real list \<Rightarrow> jsnum" where
  "magnitude embedding =
     js_sqrt (foldl (\<lambda>sum a. js_add sum (js_mul (Fin a) (Fin a))) (Fin 0) embedding)"

definition cosineSimilarity :: "real list \<Rightarrow> real list \<Rightarrow> jsnum" where
  "cosineSimilarity embedding1 embedding2 =
     js_div (dotProduct embedding1 embedding2)
       (js_mul (magnitude embedding1) (magnitude embedding2))"

subsection \<open>\<open>Number.prototype.toFixed\<close>\<close>

text \<open>The decimal digits of a natural number, most significant first.\<close>

definition digit_char :: "nat \<Rightarrow> char" where
  "digit_char d = ''0123456789'' ! d"

fun digits :: "nat \<Rightarrow> string" where
  "digits n = (if n < 10 then [digit_char n] else digits (n div 10) @ [digit_char (n mod 10)])"

declare digits.simps [simp del]

text \<open>\<open>x.toFixed(f)\<close> as ECMA-262 defines it: a value that is not finite is printed by name;
  otherwise the sign is split off, \<open>n\<close> is the integer nearest to \<open>x * 10^f\<close> (the larger
  one on a tie), and a decimal point is put before the last \<open>f\<close> digits of \<open>n\<close>, padded
  with zeros to \<open>f + 1\<close> digits.  From \<open>10^21\<close> on the standard prints the number in
  exponent notation instead, by a conversion that is a parameter here.\<close>

definition fixed_digits :: "nat \<Rightarrow> nat \<Rightarrow> string" where
  "fixed_digits f n =
     (let m = (if n = 0 then ''0'' else digits n);
          k = length m;
          m = (if k \<le> f then replicate (f + 1 - k) CHR ''0'' @ m else m);
          k = (if k \<le> f then f + 1 else k)
      in if f \<noteq> 0 then take (k - f) m @ ''.'' @ drop (k - f) m else m)"

definition toFixed :: "(real \<Rightarrow> string) \<Rightarrow> nat \<Rightarrow> jsnum \<Rightarrow> string" where
  "toFixed number_to_string f v =
     (case v of
        NaN \<Rightarrow> ''NaN''
      | PosInf \<Rightarrow> ''Infinity''
      | NegInf \<Rightarrow> ''-Infinity''
      | Fin r \<Rightarrow>
          (let s = (if r < 0 then ''-'' else []);
               x = \<bar>r\<bar>
           in if 10 ^ 21 \<le> x then s @ number_to_string x
              else s @ fixed_digits f (nat \<lfloor>x * 10 ^ f + 1 / 2\<rfloor>)))"

text \<open>\<open>(cosineSimilarity * 100).toFixed(2) + '%'\<close>\<close>

definition percentage :: "(real \<Rightarrow> string) \<Rightarrow> jsnum \<Rightarrow> string" where
  "percentage number_to_string c = toFixed number_to_string 2 (js_mul c (Fin 100)) @ ''%''"

section \<open>The request handlers\<close>

text \<open>\<open>completion.choices[0]?.message?.content || 'No response generated'\<close>: the content of
  the first choice, unless there is none or it is \<open>null\<close> or empty.\<close>

definition chat_response :: "chat_completion \<Rightarrow> string" where
  "chat_response completion =
     (case chat_choices completion of
        [] \<Rightarrow> ''No response generated''
      | None # rest \<Rightarrow> ''No response generated''
      | Some content # rest \<Rightarrow> if content = [] then ''No response generated'' else content)"

text \<open>\<open>String.prototype.trim\<close> on the white space and line terminators of ASCII (tab, line
  feed, vertical tab, form feed, carriage return, space).\<close>

definition is_white_space :: "char \<Rightarrow> bool" where
  "is_white_space c = (c \<in> set [CHR 0x09, CHR 0x0A, CHR 0x0B, CHR 0x0C, CHR 0x0D, CHR 0x20])"

definition trim :: "string \<Rightarrow> string" where
  "trim s = rev (dropWhile is_white_space (rev (dropWhile is_white_space s)))"

definition completion_response :: "text_completion \<Rightarrow> string" where
  "completion_response completion =
     (case text_choices completion of
        [] \<Rightarrow> ''No response generated''
      | t # rest \<Rightarrow> if trim t = [] then ''No response generated'' else trim t)"

text \<open>\<open>POST /api/chat\<close> (the same in all three revisions, up to logging).\<close>

definition post_api_chat :: "provider \<Rightarrow> req_body \<Rightarrow> outcome" where
  "post_api_chat openai b =
     (let message = field b ''message'';
          model = with_default (field b ''model'') (JStr ''gpt-3.5-turbo'')
      in if \<not> truthy message then bad_request ''Message is required''
         else
          (case chat_completions_create openai model message 500 of
             Inl e \<Rightarrow> server_error ''Failed to get response from OpenAI'' e
           | Inr completion \<Rightarrow>
               ok (CompletionBody (chat_response completion) (chat_usage completion)
                     (chat_model completion)),
           [ChatCompletionsCreate model message 500]))"

text \<open>\<open>POST /api/completion\<close>\<close>

definition post_api_completion :: "provider \<Rightarrow> req_body \<Rightarrow> outcome" where
  "post_api_completion openai b =
     (let prompt = field b ''prompt'';
          model = with_default (field b ''model'') (JStr ''gpt-3.5-turbo-instruct'');
          max_tokens = with_default (field b ''max_tokens'') (JNum (Fin 100))
      in if \<not> truthy prompt then bad_request ''Prompt is required''
         else
          (case completions_create openai model prompt max_tokens (7 / 10) of
             Inl e \<Rightarrow> server_error ''Failed to get completion from OpenAI'' e
           | Inr completion \<Rightarrow>
               ok (CompletionBody (completion_response completion) (text_usage completion)
                     (text_model completion)),
           [CompletionsCreate model prompt max_tokens (7 / 10)]))"

text \<open>\<open>GET /api/models\<close>\<close>

definition get_api_models :: "provider \<Rightarrow> outcome" where
  "get_api_models openai =
     (case models_list openai of
        Inl e \<Rightarrow> server_error ''Failed to fetch models from OpenAI'' e
      | Inr models \<Rightarrow>
          ok (ModelsBody
                (map (\<lambda>model. \<lparr>model_id = model_id model, model_created = model_created model,
                                model_owned_by = model_owned_by model\<rparr>) models)),
      [ModelsList])"

text \<open>\<open>POST /api/embedding\<close>, in the revision that checks \<open>text\<close> \<dots>\<close>

definition post_api_embedding_required :: "provider \<Rightarrow> req_body \<Rightarrow> outcome" where
  "post_api_embedding_required openai b =
     (let text = field b ''text'';
          model = with_default (field b ''model'') (JStr ''text-embedding-ada-002'')
      in if \<not> truthy text then bad_request ''Text is required''
         else
          (case embeddings_create openai model text None of
             Inl e \<Rightarrow> server_error ''Failed to get embedding from OpenAI'' e
           | Inr embedding \<Rightarrow> ok (EmbeddingBody embedding),
           [EmbeddingsCreate model text None]))"

text \<open>\<dots> and in the revision that logs its data, which does not check \<open>text\<close> and passes an
  \<open>encoding_format\<close>.  (The logging of that revision writes to the console only.)\<close>

definition post_api_embedding_optional :: "provider \<Rightarrow> req_body \<Rightarrow> outcome" where
  "post_api_embedding_optional openai b =
     (let text = field b ''text'';
          model = with_default (field b ''model'') (JStr ''text-embedding-ada-002'');
          encoding_format = with_default (field b ''encoding_format'') (JStr ''float'')
      in (case embeddings_create openai model text (Some encoding_format) of
            Inl e \<Rightarrow> server_error ''Failed to get embedding from OpenAI'' e
          | Inr embedding \<Rightarrow> ok (EmbeddingBody embedding),
          [EmbeddingsCreate model text (Some encoding_format)]))"

text \<open>\<open>POST /api/embeddings/batch\<close>\<close>

definition is_array :: "jsval \<Rightarrow> bool" where
  "is_array v = (case v of JArr xs \<Rightarrow> True | _ \<Rightarrow> False)"

definition array_items :: "jsval \<Rightarrow> jsval list" where
  "array_items v = (case v of JArr xs \<Rightarrow> xs | _ \<Rightarrow> [])"

definition batch_entries :: "jsval list \<Rightarrow> embedding_item list \<Rightarrow> batch_entry list" where
  "batch_entries texts data =
     map (\<lambda>(index, item).
            \<lparr>entry_index = index, entry_text = js_index texts index,
             entry_embedding = item_embedding item,
             entry_dimensions = length (item_embedding item)\<rparr>)
       (enumerate 0 data)"

definition post_api_embeddings_batch :: "provider \<Rightarrow> req_body \<Rightarrow> outcome" where
  "post_api_embeddings_batch openai b =
     (let texts = field b ''texts'';
          model = with_default (field b ''model'') (JStr ''text-embedding-ada-002'')
      in if \<not> truthy texts \<or> \<not> is_array texts \<or> length (array_items texts) = 0
         then bad_request ''Texts array is required and must not be empty''
         else if 2048 < length (array_items texts)
         then bad_request ''Maximum 2048 texts allowed per batch''
         else
          (case embeddings_create openai model texts None of
             Inl e \<Rightarrow> server_error ''Failed to get batch embeddings from OpenAI'' e
           | Inr embeddings \<Rightarrow>
               ok (BatchBody (batch_entries (array_items texts) (emb_data embeddings))
                     (emb_usage embeddings) (emb_model embeddings)
                     (length (emb_data embeddings))),
           [EmbeddingsCreate model texts None]))"

text \<open>\<open>POST /api/embeddings/similarity\<close>.  Reading \<open>.embedding\<close> of \<open>embeddings.data[0]\<close> or
  \<open>embeddings.data[1]\<close> when the provider returned fewer than two items raises a
  \<open>TypeError\<close> inside the \<open>try\<close> block (the message is the one of V8).\<close>

definition undefined_embedding :: thrown where
  "undefined_embedding =
     ErrorInstance ''Cannot read properties of undefined (reading 'embedding')''"

definition similarity_body ::
    "(real \<Rightarrow> string) \<Rightarrow> jsval \<Rightarrow> jsval \<Rightarrow> embedding_response \<Rightarrow> thrown + response_body" where
  "similarity_body number_to_string text1 text2 embeddings =
     (case emb_data embeddings of
        d0 # d1 # rest \<Rightarrow>
          (let embedding1 = item_embedding d0;
               embedding2 = item_embedding d1;
               cosine = cosineSimilarity embedding1 embedding2
           in Inr (SimilarityBody
                \<lparr>sim_text1 = text1, sim_text2 = text2,
                 cosine_similarity = cosine,
                 similarity_percentage = percentage number_to_string cosine,
                 sim_embedding1 = embedding1, sim_dimensions1 = length embedding1,
                 sim_embedding2 = embedding2, sim_dimensions2 = length embedding2,
                 sim_usage = emb_usage embeddings, sim_model = emb_model embeddings\<rparr>))
      | _ \<Rightarrow> Inl undefined_embedding)"

definition post_api_embeddings_similarity ::
    "(real \<Rightarrow> string) \<Rightarrow> provider \<Rightarrow> req_body \<Rightarrow> outcome" where
  "post_api_embeddings_similarity number_to_string openai b =
     (let text1 = field b ''text1'';
          text2 = field b ''text2'';
          model = with_default (field b ''model'') (JStr ''text-embedding-ada-002'')
      in if \<not> truthy text1 \<or> \<not> truthy text2
         then bad_request ''Both text1 and text2 are required''
         else
          (case embeddings_create openai model (JArr [text1, text2]) None of
             Inl e \<Rightarrow> server_error ''Failed to calculate embedding similarity'' e
           | Inr embeddings \<Rightarrow>
               (case similarity_body number_to_string text1 text2 embeddings of
                  Inl e \<Rightarrow> server_error ''Failed to calculate embedding similarity'' e
                | Inr reply \<Rightarrow> ok reply),
           [EmbeddingsCreate model (JArr [text1, text2]) None]))"

section \<open>Notions used to state the properties\<close>

text \<open>Stub providers: one whose every call raises the given value, and one whose embedding
  call returns the given result (its other calls return empty results).\<close>

definition stub_raising :: "thrown \<Rightarrow> provider" where
  "stub_raising e =
     \<lparr>chat_completions_create = (\<lambda>model content max_tokens. Inl e),
      completions_create = (\<lambda>model prompt max_tokens temperature. Inl e),
      models_list = Inl e,
      embeddings_create = (\<lambda>model input encoding_format. Inl e)\<rparr>"

definition stub_returning :: "embedding_response \<Rightarrow> provider" where
  "stub_returning r =
     \<lparr>chat_completions_create =
        (\<lambda>model content max_tokens.
           Inr \<lparr>chat_choices = [], chat_usage = JNull, chat_model = ''gpt-3.5-turbo''\<rparr>),
      completions_create =
        (\<lambda>model prompt max_tokens temperature.
           Inr \<lparr>text_choices = [], text_usage = JNull, text_model = ''gpt-3.5-turbo-instruct''\<rparr>),
      models_list = Inr [],
      embeddings_create = (\<lambda>model input encoding_format. Inr r)\<rparr>"

definition vectors :: "real list list \<Rightarrow> embedding_response" where
  "vectors vs =
     \<lparr>emb_data = map (\<lambda>(i, v). \<lparr>item_embedding = v, item_index = i\<rparr>) (enumerate 0 vs),
      emb_usage = JNull, emb_model = ''text-embedding-ada-002''\<rparr>"

text \<open>The message a raised failure carries, read the way the specification words it: the
  \<open>message\<close> of an \<open>Error\<close>, or the string under \<open>message\<close> of any other thrown object;
  \<open>spec_details\<close> is the \<open>details\<close> the specification promises.\<close>

definition failure_message :: "thrown \<Rightarrow> string option" where
  "failure_message e =
     (case e of
        ErrorInstance m \<Rightarrow> Some m
      | NonError (JObj fs) \<Rightarrow>
          (case map_of fs ''message'' of Some (JStr m) \<Rightarrow> Some m | _ \<Rightarrow> None)
      | NonError _ \<Rightarrow> None)"

definition spec_details :: "thrown \<Rightarrow> string" where
  "spec_details e = (case failure_message e of Some m \<Rightarrow> m | None \<Rightarrow> ''Unknown error'')"




section \<open>Validation of required fields\<close>

lemma field_absent: "b k = None \<Longrightarrow> field b k = JUndefined"
  by (simp add: field_def)

lemma field_present: "b k = Some v \<Longrightarrow> field b k = v"
  by (simp add: field_def)

text \<open>Claim C6.  A request that lacks the required field (\<open>message\<close> on \<open>/api/chat\<close>,
  \<open>prompt\<close> on \<open>/api/completion\<close>, \<open>text1\<close> or \<open>text2\<close> on \<open>/api/embeddings/similarity\<close>)
  is answered with status 400 and a body \<open>{error}\<close>, and the list of provider calls is
  empty.\<close>

theorem missing_required_field:
  "(b ''message'' = None \<longrightarrow>
      post_api_chat openai b =
        (\<lparr>status = 400, body = ErrorBody ''Message is required''\<rparr>, []))
   \<and> (b ''prompt'' = None \<longrightarrow>
      post_api_completion openai b =
        (\<lparr>status = 400, body = ErrorBody ''Prompt is required''\<rparr>, []))
   \<and> (b ''text1'' = None \<or> b ''text2'' = None \<longrightarrow>
      post_api_embeddings_similarity number_to_string openai b =
        (\<lparr>status = 400, body = ErrorBody ''Both text1 and text2 are required''\<rparr>, []))"
  by (auto simp: post_api_chat_def post_api_completion_def post_api_embeddings_similarity_def
      Let_def bad_request_def field_absent)

theorem missing_required_field_witness:
  "post_api_chat (stub_returning (vectors [])) Map.empty =
      (\<lparr>status = 400, body = ErrorBody ''Message is required''\<rparr>, [])
   \<and> post_api_completion (stub_returning (vectors [])) Map.empty =
      (\<lparr>status = 400, body = ErrorBody ''Prompt is required''\<rparr>, [])
   \<and> post_api_embeddings_similarity (\<lambda>x. []) (stub_returning (vectors []))
        [''text1'' \<mapsto> JStr ''a''] =
      (\<lparr>status = 400, body = ErrorBody ''Both text1 and text2 are required''\<rparr>, [])"
  using missing_required_field [of Map.empty "stub_returning (vectors [])"]
    missing_required_field
      [of "[''text1'' \<mapsto> JStr ''a'']" "stub_returning (vectors [])" "\<lambda>x. []"]
  by simp

text \<open>Claim C9.  The check is \<open>!field\<close>, so a field that is present but is the empty
  string, \<open>0\<close>, \<open>false\<close> or \<open>null\<close> gets the same 400 answer with the same message, and no
  provider call is made.\<close>

theorem falsy_required_field:
  "v \<in> {JStr [], JNum (Fin 0), JBool False, JNull} \<Longrightarrow>
   (b ''message'' = Some v \<longrightarrow>
      post_api_chat openai b =
        (\<lparr>status = 400, body = ErrorBody ''Message is required''\<rparr>, []))
   \<and> (b ''prompt'' = Some v \<longrightarrow>
      post_api_completion openai b =
        (\<lparr>status = 400, body = ErrorBody ''Prompt is required''\<rparr>, []))
   \<and> (b ''text1'' = Some v \<or> b ''text2'' = Some v \<longrightarrow>
      post_api_embeddings_similarity number_to_string openai b =
        (\<lparr>status = 400, body = ErrorBody ''Both text1 and text2 are required''\<rparr>, []))"
  by (auto simp: post_api_chat_def post_api_completion_def post_api_embeddings_similarity_def
      Let_def bad_request_def field_present)

theorem falsy_required_field_witness:
  "post_api_chat (stub_returning (vectors [])) [''message'' \<mapsto> JNum (Fin 0)] =
      (\<lparr>status = 400, body = ErrorBody ''Message is required''\<rparr>, [])
   \<and> post_api_completion (stub_returning (vectors [])) [''prompt'' \<mapsto> JStr []] =
      (\<lparr>status = 400, body = ErrorBody ''Prompt is required''\<rparr>, [])
   \<and> post_api_embeddings_similarity (\<lambda>x. []) (stub_returning (vectors []))
        [''text1'' \<mapsto> JStr ''a'', ''text2'' \<mapsto> JNull] =
      (\<lparr>status = 400, body = ErrorBody ''Both text1 and text2 are required''\<rparr>, [])"
  using
    falsy_required_field
      [of "JNum (Fin 0)" "[''message'' \<mapsto> JNum (Fin 0)]" "stub_returning (vectors [])"]
    falsy_required_field
      [of "JStr []" "[''prompt'' \<mapsto> JStr []]" "stub_returning (vectors [])"]
    falsy_required_field
      [of JNull "[''text1'' \<mapsto> JStr ''a'', ''text2'' \<mapsto> JNull]"
        "stub_returning (vectors [])" "\<lambda>x. []"]
  by simp

section \<open>Batch embeddings\<close>

text \<open>Once \<open>texts\<close> is an array of 1 to 2048 items, the handler makes exactly one provider
  call and its answer depends on that call only.\<close>

lemma batch_validated:
  assumes "b ''texts'' = Some (JArr ts)" "0 < length ts" "length ts \<le> 2048"
  shows "post_api_embeddings_batch openai b =
    (case embeddings_create openai
            (with_default (field b ''model'') (JStr ''text-embedding-ada-002'')) (JArr ts) None of
       Inl e \<Rightarrow> server_error ''Failed to get batch embeddings from OpenAI'' e
     | Inr embeddings \<Rightarrow>
         ok (BatchBody (batch_entries ts (emb_data embeddings))
               (emb_usage embeddings) (emb_model embeddings) (length (emb_data embeddings))),
     [EmbeddingsCreate (with_default (field b ''model'') (JStr ''text-embedding-ada-002''))
        (JArr ts) None])"
  using assms
  by (simp add: post_api_embeddings_batch_def Let_def field_present is_array_def array_items_def
      cong: sum.case_cong)

lemma length_batch_entries: "length (batch_entries texts data) = length data"
  by (simp add: batch_entries_def)

lemma batch_entries_nth:
  "i < length data \<Longrightarrow>
   batch_entries texts data ! i =
     \<lparr>entry_index = i, entry_text = js_index texts i,
      entry_embedding = item_embedding (data ! i),
      entry_dimensions = length (item_embedding (data ! i))\<rparr>"
  by (simp add: batch_entries_def nth_enumerate_eq)

text \<open>Claim C5.  \<open>texts = []\<close> is answered with status 400 and the message for a missing or
  empty array; more than 2048 texts (2049 in particular) with status 400 and the message
  \<open>Maximum 2048 texts allowed per batch\<close>; in both cases no provider call is made.  With 1 to
  2048 texts (2048 in particular) validation passes: one provider call is made, and when it
  succeeds the status is 200.\<close>

theorem batch_size_validation:
  "b ''texts'' = Some (JArr ts) \<Longrightarrow>
   (length ts = 0 \<longrightarrow>
      post_api_embeddings_batch openai b =
        (\<lparr>status = 400, body = ErrorBody ''Texts array is required and must not be empty''\<rparr>, []))
   \<and> (2048 < length ts \<longrightarrow>
      post_api_embeddings_batch openai b =
        (\<lparr>status = 400, body = ErrorBody ''Maximum 2048 texts allowed per batch''\<rparr>, []))
   \<and> (0 < length ts \<and> length ts \<le> 2048 \<longrightarrow>
        (\<forall>model r. model = with_default (field b ''model'') (JStr ''text-embedding-ada-002'')
           \<and> embeddings_create openai model (JArr ts) None = Inr r \<longrightarrow>
           status (fst (post_api_embeddings_batch openai b)) = 200
           \<and> snd (post_api_embeddings_batch openai b) = [EmbeddingsCreate model (JArr ts) None]))"
proof (intro conjI impI allI)
  assume b: "b ''texts'' = Some (JArr ts)"
  show "post_api_embeddings_batch openai b =
        (\<lparr>status = 400, body = ErrorBody ''Texts array is required and must not be empty''\<rparr>, [])"
    if "length ts = 0"
    using b that
    by (simp add: post_api_embeddings_batch_def Let_def field_present is_array_def
        array_items_def bad_request_def)
  show "post_api_embeddings_batch openai b =
        (\<lparr>status = 400, body = ErrorBody ''Maximum 2048 texts allowed per batch''\<rparr>, [])"
    if "2048 < length ts"
    using b that
    by (auto simp add: post_api_embeddings_batch_def Let_def field_present is_array_def
        array_items_def bad_request_def)
next
  fix model r
  assume b: "b ''texts'' = Some (JArr ts)" and len: "0 < length ts \<and> length ts \<le> 2048"
    and r: "model = with_default (field b ''model'') (JStr ''text-embedding-ada-002'')
           \<and> embeddings_create openai model (JArr ts) None = Inr r"
  from b len r show "status (fst (post_api_embeddings_batch openai b)) = 200"
    by (auto simp: batch_validated ok_def)
  from b len r show "snd (post_api_embeddings_batch openai b) = [EmbeddingsCreate model (JArr ts) None]"
    by (auto simp: batch_validated)
qed

theorem batch_size_validation_witness:
  "post_api_embeddings_batch (stub_returning (vectors [])) [''texts'' \<mapsto> JArr []] =
      (\<lparr>status = 400, body = ErrorBody ''Texts array is required and must not be empty''\<rparr>, [])
   \<and> post_api_embeddings_batch (stub_returning (vectors []))
        [''texts'' \<mapsto> JArr (replicate 2049 (JStr ''a''))] =
      (\<lparr>status = 400, body = ErrorBody ''Maximum 2048 texts allowed per batch''\<rparr>, [])
   \<and> status (fst (post_api_embeddings_batch (stub_returning (vectors []))
        [''texts'' \<mapsto> JArr (replicate 2048 (JStr ''a''))])) = 200
   \<and> snd (post_api_embeddings_batch (stub_returning (vectors []))
        [''texts'' \<mapsto> JArr (replicate 2048 (JStr ''a''))]) =
      [EmbeddingsCreate (JStr ''text-embedding-ada-002'') (JArr (replicate 2048 (JStr ''a''))) None]"
  using
    batch_size_validation
      [of "[''texts'' \<mapsto> JArr []]" "[]" "stub_returning (vectors [])"]
    batch_size_validation
      [of "[''texts'' \<mapsto> JArr (replicate 2049 (JStr ''a''))]" "replicate 2049 (JStr ''a'')"
        "stub_returning (vectors [])"]
    batch_size_validation
      [of "[''texts'' \<mapsto> JArr (replicate 2048 (JStr ''a''))]" "replicate 2048 (JStr ''a'')"
        "stub_returning (vectors [])"]
  by (simp add: stub_returning_def with_default_def field_def)

text \<open>Claim C10.  In every 200 answer of the batch route, \<open>total_embeddings\<close> is the length
  of \<open>embeddings\<close>, and both are the number of items of the data the provider returned
  (whatever the number of input texts).\<close>

theorem batch_total_embeddings:
  "post_api_embeddings_batch openai b = (resp, calls) \<Longrightarrow> status resp = 200 \<Longrightarrow>
   \<exists>model texts r entries.
     calls = [EmbeddingsCreate model texts None]
     \<and> embeddings_create openai model texts None = Inr r
     \<and> body resp = BatchBody entries (emb_usage r) (emb_model r) (length entries)
     \<and> length entries = length (emb_data r)"
  by (auto simp: post_api_embeddings_batch_def Let_def bad_request_def server_error_def ok_def
      length_batch_entries split: if_splits sum.splits)

theorem batch_total_embeddings_witness:
  "\<exists>model texts r entries.
     snd (post_api_embeddings_batch (stub_returning (vectors [[1], [2], [3]]))
        [''texts'' \<mapsto> JArr [JStr ''a'', JStr ''b'']]) = [EmbeddingsCreate model texts None]
     \<and> embeddings_create (stub_returning (vectors [[1], [2], [3]])) model texts None = Inr r
     \<and> body (fst (post_api_embeddings_batch (stub_returning (vectors [[1], [2], [3]]))
        [''texts'' \<mapsto> JArr [JStr ''a'', JStr ''b'']])) =
         BatchBody entries (emb_usage r) (emb_model r) (length entries)
     \<and> length entries = length (emb_data r) \<and> length entries = 3"
proof -
  have eq: "post_api_embeddings_batch (stub_returning (vectors [[1], [2], [3]]))
        [''texts'' \<mapsto> JArr [JStr ''a'', JStr ''b'']] =
      (fst (post_api_embeddings_batch (stub_returning (vectors [[1], [2], [3]]))
        [''texts'' \<mapsto> JArr [JStr ''a'', JStr ''b'']]),
       snd (post_api_embeddings_batch (stub_returning (vectors [[1], [2], [3]]))
        [''texts'' \<mapsto> JArr [JStr ''a'', JStr ''b'']]))"
    by simp
  have st: "status (fst (post_api_embeddings_batch (stub_returning (vectors [[1], [2], [3]]))
        [''texts'' \<mapsto> JArr [JStr ''a'', JStr ''b'']])) = 200"
    by (simp add: batch_validated stub_returning_def ok_def)
  from batch_total_embeddings [OF eq st] show ?thesis
    by (auto simp: stub_returning_def vectors_def)
qed

text \<open>Claim C1, as amended.  With \<open>texts\<close> an array of \<open>L\<close> items, \<open>1 \<le> L \<le> 2048\<close>, and a
  provider call that succeeds, the 200 answer has one item per item of the provider's data:
  item \<open>i\<close> has index \<open>i\<close>, text \<open>texts[i]\<close> (\<open>undefined\<close> from \<open>L\<close> on), the provider's
  \<open>i\<close>-th vector and its length.  When the provider returns exactly \<open>L\<close> items these are
  \<open>L\<close> items aligned with the input texts.\<close>

theorem batch_entries_aligned:
  assumes "b ''texts'' = Some (JArr texts)"
    and "1 \<le> length texts" and "length texts \<le> 2048"
    and "embeddings_create openai
           (with_default (field b ''model'') (JStr ''text-embedding-ada-002''))
           (JArr texts) None = Inr r"
  shows "\<exists>entries.
     fst (post_api_embeddings_batch openai b) =
       \<lparr>status = 200,
        body = BatchBody entries (emb_usage r) (emb_model r) (length (emb_data r))\<rparr>
     \<and> length entries = length (emb_data r)
     \<and> (\<forall>i < length (emb_data r).
          entries ! i =
            \<lparr>entry_index = i,
             entry_text = (if i < length texts then texts ! i else JUndefined),
             entry_embedding = item_embedding (emb_data r ! i),
             entry_dimensions = length (item_embedding (emb_data r ! i))\<rparr>)
     \<and> (length (emb_data r) = length texts \<longrightarrow>
          length entries = length texts
          \<and> (\<forall>i < length texts.
               entry_index (entries ! i) = i
               \<and> entry_text (entries ! i) = texts ! i
               \<and> entry_embedding (entries ! i) = item_embedding (emb_data r ! i)
               \<and> entry_dimensions (entries ! i) = length (item_embedding (emb_data r ! i))))"
proof -
  from assms(2) have "0 < length texts" by linarith
  with batch_validated [of b texts openai] assms(1,3,4)
  have "fst (post_api_embeddings_batch openai b) =
       \<lparr>status = 200,
        body = BatchBody (batch_entries texts (emb_data r)) (emb_usage r) (emb_model r)
          (length (emb_data r))\<rparr>"
    by (simp add: ok_def)
  then show ?thesis
    by (intro exI [of _ "batch_entries texts (emb_data r)"])
      (simp add: length_batch_entries batch_entries_nth js_index_def)
qed

theorem batch_entries_aligned_witness:
  "\<exists>entries.
     fst (post_api_embeddings_batch (stub_returning (vectors [[1, 2], [3]]))
            [''texts'' \<mapsto> JArr [JStr ''a'', JStr ''b'']]) =
       \<lparr>status = 200, body = BatchBody entries JNull ''text-embedding-ada-002'' 2\<rparr>
     \<and> entries =
        [\<lparr>entry_index = 0, entry_text = JStr ''a'', entry_embedding = [1, 2], entry_dimensions = 2\<rparr>,
         \<lparr>entry_index = 1, entry_text = JStr ''b'', entry_embedding = [3], entry_dimensions = 1\<rparr>]"
proof -
  from batch_entries_aligned
    [of "[''texts'' \<mapsto> JArr [JStr ''a'', JStr ''b'']]" "[JStr ''a'', JStr ''b'']"
      "stub_returning (vectors [[1, 2], [3]])" "vectors [[1, 2], [3]]"]
  obtain entries where e:
    "fst (post_api_embeddings_batch (stub_returning (vectors [[1, 2], [3]]))
            [''texts'' \<mapsto> JArr [JStr ''a'', JStr ''b'']]) =
       \<lparr>status = 200, body = BatchBody entries JNull ''text-embedding-ada-002'' 2\<rparr>"
    "length entries = 2"
    "entries ! 0 = \<lparr>entry_index = 0, entry_text = JStr ''a'', entry_embedding = [1, 2], entry_dimensions = 2\<rparr>"
    "entries ! 1 = \<lparr>entry_index = 1, entry_text = JStr ''b'', entry_embedding = [3], entry_dimensions = 1\<rparr>"
    by (auto simp: stub_returning_def vectors_def)
  from e(2) obtain x y where "entries = [x, y]"
    by (auto simp: length_Suc_conv numeral_2_eq_2)
  with e show ?thesis by auto
qed

text \<open>The claim as stated fails when the provider returns fewer items than there were
  texts: two texts, one returned vector, and a 200 answer with one item.\<close>

theorem batch_entries_counterexample:
  "length [JStr ''a'', JStr ''b''] = 2
   \<and> post_api_embeddings_batch (stub_returning (vectors [[1, 2]]))
        [''texts'' \<mapsto> JArr [JStr ''a'', JStr ''b'']] =
      (\<lparr>status = 200,
        body = BatchBody
          [\<lparr>entry_index = 0, entry_text = JStr ''a'', entry_embedding = [1, 2],
            entry_dimensions = 2\<rparr>]
          JNull ''text-embedding-ada-002'' 1\<rparr>,
       [EmbeddingsCreate (JStr ''text-embedding-ada-002'') (JArr [JStr ''a'', JStr ''b'']) None])"
  by (simp add: batch_validated stub_returning_def vectors_def ok_def batch_entries_def
      js_index_def with_default_def field_def)

section \<open>Single embedding\<close>

text \<open>Claim C8.  The revision that checks \<open>text\<close> answers 400 when it is absent, without a
  provider call; the other revision calls the provider with \<open>input\<close> undefined.  In both,
  the result of a successful provider call is the value of the \<open>embedding\<close> key, as
  returned.\<close>

theorem embedding_text_optional_or_required:
  "(b ''text'' = None \<longrightarrow>
      post_api_embedding_required openai b =
        (\<lparr>status = 400, body = ErrorBody ''Text is required''\<rparr>, []))
   \<and> (b ''text'' = None \<longrightarrow>
      snd (post_api_embedding_optional openai b) =
        [EmbeddingsCreate (with_default (field b ''model'') (JStr ''text-embedding-ada-002''))
           JUndefined (Some (with_default (field b ''encoding_format'') (JStr ''float'')))])
   \<and> (\<forall>r. embeddings_create openai
             (with_default (field b ''model'') (JStr ''text-embedding-ada-002''))
             (field b ''text'')
             (Some (with_default (field b ''encoding_format'') (JStr ''float''))) = Inr r \<longrightarrow>
          fst (post_api_embedding_optional openai b) = \<lparr>status = 200, body = EmbeddingBody r\<rparr>)
   \<and> (\<forall>r. truthy (field b ''text'')
          \<and> embeddings_create openai
               (with_default (field b ''model'') (JStr ''text-embedding-ada-002''))
               (field b ''text'') None = Inr r \<longrightarrow>
          fst (post_api_embedding_required openai b) = \<lparr>status = 200, body = EmbeddingBody r\<rparr>)"
  by (auto simp: post_api_embedding_required_def post_api_embedding_optional_def Let_def
      bad_request_def ok_def field_absent)

theorem embedding_text_optional_or_required_witness:
  "post_api_embedding_required (stub_returning (vectors [[1, 2]])) Map.empty =
      (\<lparr>status = 400, body = ErrorBody ''Text is required''\<rparr>, [])
   \<and> post_api_embedding_optional (stub_returning (vectors [[1, 2]])) Map.empty =
      (\<lparr>status = 200, body = EmbeddingBody (vectors [[1, 2]])\<rparr>,
       [EmbeddingsCreate (JStr ''text-embedding-ada-002'') JUndefined (Some (JStr ''float''))])
   \<and> fst (post_api_embedding_required (stub_returning (vectors [[1, 2]]))
        [''text'' \<mapsto> JStr ''a'']) =
      \<lparr>status = 200, body = EmbeddingBody (vectors [[1, 2]])\<rparr>"
  using
    embedding_text_optional_or_required [of Map.empty "stub_returning (vectors [[1, 2]])"]
    embedding_text_optional_or_required
      [of "[''text'' \<mapsto> JStr ''a'']" "stub_returning (vectors [[1, 2]])"]
  by (simp add: stub_returning_def field_def with_default_def prod_eq_iff)

section \<open>Provider failures\<close>

text \<open>Claim C7, as amended.  On every route that calls the provider, a provider call that
  raises \<open>e\<close> is answered with status 500 and a body \<open>{error, details}\<close>: \<open>error\<close> is the
  route's fixed message, and \<open>details\<close> is the \<open>message\<close> of \<open>e\<close> when \<open>e\<close> is an instance of
  \<open>Error\<close>, and \<open>Unknown error\<close> for every other thrown value.\<close>

theorem provider_failure_is_500:
  "(truthy (field b ''message'')
      \<and> chat_completions_create openai
          (with_default (field b ''model'') (JStr ''gpt-3.5-turbo'')) (field b ''message'') 500
        = Inl e \<longrightarrow>
      fst (post_api_chat openai b) =
        \<lparr>status = 500,
         body = ErrorDetailsBody ''Failed to get response from OpenAI'' (error_details e)\<rparr>)
   \<and> (truthy (field b ''prompt'')
      \<and> completions_create openai
          (with_default (field b ''model'') (JStr ''gpt-3.5-turbo-instruct''))
          (field b ''prompt'') (with_default (field b ''max_tokens'') (JNum (Fin 100))) (7 / 10)
        = Inl e \<longrightarrow>
      fst (post_api_completion openai b) =
        \<lparr>status = 500,
         body = ErrorDetailsBody ''Failed to get completion from OpenAI'' (error_details e)\<rparr>)
   \<and> (models_list openai = Inl e \<longrightarrow>
      fst (get_api_models openai) =
        \<lparr>status = 500,
         body = ErrorDetailsBody ''Failed to fetch models from OpenAI'' (error_details e)\<rparr>)
   \<and> (truthy (field b ''text'')
      \<and> embeddings_create openai
          (with_default (field b ''model'') (JStr ''text-embedding-ada-002''))
          (field b ''text'') None
        = Inl e \<longrightarrow>
      fst (post_api_embedding_required openai b) =
        \<lparr>status = 500,
         body = ErrorDetailsBody ''Failed to get embedding from OpenAI'' (error_details e)\<rparr>)
   \<and> (embeddings_create openai
          (with_default (field b ''model'') (JStr ''text-embedding-ada-002''))
          (field b ''text'') (Some (with_default (field b ''encoding_format'') (JStr ''float'')))
        = Inl e \<longrightarrow>
      fst (post_api_embedding_optional openai b) =
        \<lparr>status = 500,
         body = ErrorDetailsBody ''Failed to get embedding from OpenAI'' (error_details e)\<rparr>)
   \<and> (b ''texts'' = Some (JArr ts) \<and> 0 < length ts \<and> length ts \<le> 2048
      \<and> embeddings_create openai
          (with_default (field b ''model'') (JStr ''text-embedding-ada-002'')) (JArr ts) None
        = Inl e \<longrightarrow>
      fst (post_api_embeddings_batch openai b) =
        \<lparr>status = 500,
         body = ErrorDetailsBody ''Failed to get batch embeddings from OpenAI''
                  (error_details e)\<rparr>)
   \<and> (truthy (field b ''text1'') \<and> truthy (field b ''text2'')
      \<and> embeddings_create openai
          (with_default (field b ''model'') (JStr ''text-embedding-ada-002''))
          (JArr [field b ''text1'', field b ''text2'']) None
        = Inl e \<longrightarrow>
      fst (post_api_embeddings_similarity number_to_string openai b) =
        \<lparr>status = 500,
         body = ErrorDetailsBody ''Failed to calculate embedding similarity''
                  (error_details e)\<rparr>)
   \<and> error_details e =
       (case e of ErrorInstance message \<Rightarrow> message | NonError v \<Rightarrow> ''Unknown error'')"
proof -
  have batch: "fst (post_api_embeddings_batch openai b) =
        \<lparr>status = 500,
         body = ErrorDetailsBody ''Failed to get batch embeddings from OpenAI''
                  (error_details e)\<rparr>"
    if "b ''texts'' = Some (JArr ts)" "0 < length ts" "length ts \<le> 2048"
      "embeddings_create openai
          (with_default (field b ''model'') (JStr ''text-embedding-ada-002'')) (JArr ts) None
        = Inl e"
    using that batch_validated [of b ts openai] by (simp add: server_error_def)
  show ?thesis
    by (intro conjI impI)
      (simp_all add: post_api_chat_def post_api_completion_def get_api_models_def
        post_api_embedding_required_def post_api_embedding_optional_def
        post_api_embeddings_similarity_def Let_def server_error_def batch error_details_def)
qed

theorem provider_failure_is_500_witness:
  "fst (post_api_chat (stub_raising (ErrorInstance ''Rate limit exceeded''))
          [''message'' \<mapsto> JStr ''hi'']) =
     \<lparr>status = 500,
      body = ErrorDetailsBody ''Failed to get response from OpenAI'' ''Rate limit exceeded''\<rparr>
   \<and> fst (post_api_completion (stub_raising (ErrorInstance ''Rate limit exceeded''))
          [''prompt'' \<mapsto> JStr ''hi'']) =
     \<lparr>status = 500,
      body = ErrorDetailsBody ''Failed to get completion from OpenAI'' ''Rate limit exceeded''\<rparr>
   \<and> fst (get_api_models (stub_raising (ErrorInstance ''Rate limit exceeded''))) =
     \<lparr>status = 500,
      body = ErrorDetailsBody ''Failed to fetch models from OpenAI'' ''Rate limit exceeded''\<rparr>
   \<and> fst (post_api_embedding_required (stub_raising (NonError (JStr ''timeout'')))
          [''text'' \<mapsto> JStr ''hi'']) =
     \<lparr>status = 500,
      body = ErrorDetailsBody ''Failed to get embedding from OpenAI'' ''Unknown error''\<rparr>
   \<and> fst (post_api_embedding_optional (stub_raising (NonError (JStr ''timeout''))) Map.empty) =
     \<lparr>status = 500,
      body = ErrorDetailsBody ''Failed to get embedding from OpenAI'' ''Unknown error''\<rparr>
   \<and> fst (post_api_embeddings_batch (stub_raising (ErrorInstance ''Rate limit exceeded''))
          [''texts'' \<mapsto> JArr [JStr ''a'']]) =
     \<lparr>status = 500,
      body = ErrorDetailsBody ''Failed to get batch embeddings from OpenAI''
               ''Rate limit exceeded''\<rparr>
   \<and> fst (post_api_embeddings_similarity (\<lambda>x. [])
          (stub_raising (ErrorInstance ''Rate limit exceeded''))
          [''text1'' \<mapsto> JStr ''a'', ''text2'' \<mapsto> JStr ''b'']) =
     \<lparr>status = 500,
      body = ErrorDetailsBody ''Failed to calculate embedding similarity''
               ''Rate limit exceeded''\<rparr>"
proof (intro conjI)
  let ?limit = "ErrorInstance ''Rate limit exceeded''"
  let ?timeout = "NonError (JStr ''timeout'')"
  note raised = stub_raising_def field_def error_details_def
  show "fst (post_api_chat (stub_raising ?limit) [''message'' \<mapsto> JStr ''hi'']) =
     \<lparr>status = 500,
      body = ErrorDetailsBody ''Failed to get response from OpenAI'' ''Rate limit exceeded''\<rparr>"
    using provider_failure_is_500
      [of "[''message'' \<mapsto> JStr ''hi'']" "stub_raising ?limit" ?limit, THEN conjunct1]
    by (simp add: raised)
  show "fst (post_api_completion (stub_raising ?limit) [''prompt'' \<mapsto> JStr ''hi'']) =
     \<lparr>status = 500,
      body = ErrorDetailsBody ''Failed to get completion from OpenAI'' ''Rate limit exceeded''\<rparr>"
    using provider_failure_is_500
      [of "[''prompt'' \<mapsto> JStr ''hi'']" "stub_raising ?limit" ?limit,
        THEN conjunct2, THEN conjunct1]
    by (simp add: raised)
  show "fst (get_api_models (stub_raising ?limit)) =
     \<lparr>status = 500,
      body = ErrorDetailsBody ''Failed to fetch models from OpenAI'' ''Rate limit exceeded''\<rparr>"
    using provider_failure_is_500
      [of Map.empty "stub_raising ?limit" ?limit,
        THEN conjunct2, THEN conjunct2, THEN conjunct1]
    by (simp add: raised)
  show "fst (post_api_embedding_required (stub_raising ?timeout) [''text'' \<mapsto> JStr ''hi'']) =
     \<lparr>status = 500,
      body = ErrorDetailsBody ''Failed to get embedding from OpenAI'' ''Unknown error''\<rparr>"
    using provider_failure_is_500
      [of "[''text'' \<mapsto> JStr ''hi'']" "stub_raising ?timeout" ?timeout,
        THEN conjunct2, THEN conjunct2, THEN conjunct2, THEN conjunct1]
    by (simp add: raised)
  show "fst (post_api_embedding_optional (stub_raising ?timeout) Map.empty) =
     \<lparr>status = 500,
      body = ErrorDetailsBody ''Failed to get embedding from OpenAI'' ''Unknown error''\<rparr>"
    using provider_failure_is_500
      [of Map.empty "stub_raising ?timeout" ?timeout,
        THEN conjunct2, THEN conjunct2, THEN conjunct2, THEN conjunct2, THEN conjunct1]
    by (simp add: raised)
  show "fst (post_api_embeddings_batch (stub_raising ?limit) [''texts'' \<mapsto> JArr [JStr ''a'']]) =
     \<lparr>status = 500,
      body = ErrorDetailsBody ''Failed to get batch embeddings from OpenAI''
               ''Rate limit exceeded''\<rparr>"
    using provider_failure_is_500
      [of "[''texts'' \<mapsto> JArr [JStr ''a'']]" "stub_raising ?limit" ?limit "[JStr ''a'']",
        THEN conjunct2, THEN conjunct2, THEN conjunct2, THEN conjunct2, THEN conjunct2,
        THEN conjunct1]
    by (simp add: raised)
  show "fst (post_api_embeddings_similarity (\<lambda>x. []) (stub_raising ?limit)
          [''text1'' \<mapsto> JStr ''a'', ''text2'' \<mapsto> JStr ''b'']) =
     \<lparr>status = 500,
      body = ErrorDetailsBody ''Failed to calculate embedding similarity''
               ''Rate limit exceeded''\<rparr>"
    using provider_failure_is_500
      [of "[''text1'' \<mapsto> JStr ''a'', ''text2'' \<mapsto> JStr ''b'']" "stub_raising ?limit" ?limit
        _ "\<lambda>x. []",
        THEN conjunct2, THEN conjunct2, THEN conjunct2, THEN conjunct2, THEN conjunct2,
        THEN conjunct2, THEN conjunct1]
    by (simp add: raised)
qed

text \<open>The claim as stated fails for a thrown value that carries a message without being an
  instance of \<open>Error\<close>: the object \<open>{message: 'boom'}\<close> yields \<open>Unknown error\<close>, not
  \<open>boom\<close>.\<close>

theorem provider_failure_details_counterexample:
  "failure_message (NonError (JObj [(''message'', JStr ''boom'')])) = Some ''boom''
   \<and> spec_details (NonError (JObj [(''message'', JStr ''boom'')])) = ''boom''
   \<and> post_api_chat (stub_raising (NonError (JObj [(''message'', JStr ''boom'')])))
        [''message'' \<mapsto> JStr ''hi''] =
      (\<lparr>status = 500,
        body = ErrorDetailsBody ''Failed to get response from OpenAI'' ''Unknown error''\<rparr>,
       [ChatCompletionsCreate (JStr ''gpt-3.5-turbo'') (JStr ''hi'') 500])"
  by (simp add: failure_message_def spec_details_def post_api_chat_def stub_raising_def
      field_def with_default_def server_error_def error_details_def)

section \<open>Cosine similarity\<close>

text \<open>The two folds in closed form.  All sums are finite, so the magnitudes are finite;
  the dot product is finite unless the second vector is shorter than the first, when a
  factor \<open>undefined\<close> makes it \<open>NaN\<close>.\<close>

lemma fold_squares:
  "foldl (\<lambda>sum a. js_add sum (js_mul (Fin a) (Fin a))) (Fin s) xs =
     Fin (s + sum_list (map (\<lambda>x. x * x) xs))"
  by (induction xs arbitrary: s) (simp_all add: add.assoc)

lemma sum_squares_nonneg: "0 \<le> sum_list (map (\<lambda>x. x * x) (xs :: real list))"
  by (induction xs) simp_all

lemma magnitude_eq: "magnitude xs = Fin (sqrt (sum_list (map (\<lambda>x. x * x) xs)))"
  unfolding magnitude_def fold_squares
  using sum_squares_nonneg [of xs] by simp

lemma fold_products:
  "k + length xs \<le> length ys \<Longrightarrow>
   foldl (\<lambda>sum (i, a). js_add sum (js_mul (Fin a) (num_index ys i))) (Fin s) (enumerate k xs) =
     Fin (s + sum_list (map (\<lambda>(x, y). x * y) (zip xs (drop k ys))))"
proof (induction xs arbitrary: s k)
  case Nil
  then show ?case by simp
next
  case (Cons x xs)
  then have k: "k < length ys" and rest: "Suc k + length xs \<le> length ys"
    by simp_all
  from k have d: "drop k ys = ys ! k # drop (Suc k) ys"
    by (simp add: Cons_nth_drop_Suc)
  from k have "num_index ys k = Fin (ys ! k)"
    by (simp add: num_index_def)
  then show ?case
    by (simp add: Cons.IH [OF rest] d add.assoc)
qed

lemma dotProduct_eq:
  "length xs \<le> length ys \<Longrightarrow>
   dotProduct xs ys = Fin (sum_list (map (\<lambda>(x, y). x * y) (zip xs ys)))"
  using fold_products [of 0 xs ys 0] by (simp add: dotProduct_def)






lemma products_commute:
  "sum_list (map (\<lambda>(x, y). x * y) (zip xs ys)) =
   sum_list (map (\<lambda>(x, y). x * y) (zip ys (xs :: real list)))"
  by (subst zip_commute) (simp add: split_def mult.commute o_def)


text \<open>The value of the calculator in closed form, when the second vector is not shorter.\<close>

lemma cosineSimilarity_eq:
  assumes "length xs \<le> length ys"
  shows "cosineSimilarity xs ys =
     js_div (Fin (sum_list (map (\<lambda>(x, y). x * y) (zip xs ys))))
       (Fin (sqrt (sum_list (map (\<lambda>x. x * x) xs)) * sqrt (sum_list (map (\<lambda>y. y * y) ys))))"
  using assms by (simp add: cosineSimilarity_def dotProduct_eq magnitude_eq)



text \<open>Claim C3.  For vectors of equal length, the value computed for \<open>(a, b)\<close> is the value
  computed for \<open>(b, a)\<close>.\<close>

theorem cosine_symmetric:
  "length a = length b \<Longrightarrow> cosineSimilarity a b = cosineSimilarity b a"
  by (simp add: cosineSimilarity_eq products_commute [of a b] mult.commute)

theorem cosine_symmetric_witness:
  "cosineSimilarity [1, 2] [3, 4] = cosineSimilarity [3, 4] [1, 2]"
  using cosine_symmetric [of "[1, 2]" "[3, 4]"] by simp



section \<open>The similarity percentage\<close>






















end
